theory Spec2Isabelle
  imports Main
begin

section \<open>The page base class of basePage.tsx\<close>

text \<open>
  The theory embeds \<^verbatim>\<open>src/app/pages/basePage.tsx\<close>: the abstract classes
  \<^verbatim>\<open>PageComponent\<close> (the retrying page-data loader and the error state) and
  \<^verbatim>\<open>TenantPageComponent\<close> (the tenant-scoped configuration).

  JavaScript numbers that count retries and milliseconds are natural numbers here: the
  class itself writes \<^verbatim>\<open>pageLoadRetries\<close> only by adding 1 to a count that starts
  at 0, and the powers of two involved are exact in a double. An optional field of the
  state (\<^verbatim>\<open>isLoading?: boolean\<close>) is an \<open>option\<close>, \<open>None\<close> standing for
  \<^verbatim>\<open>undefined\<close>. Values of type \<^verbatim>\<open>any\<close> that the class only passes on (the
  error caught) are a type parameter \<open>'e\<close>. Strings are lists of characters.
\<close>

subsection \<open>Data\<close>

definition MAX_RETRIES :: nat where
  "MAX_RETRIES = 5"

datatype PageErrorType = React | Server

text \<open>
  The third argument of \<^verbatim>\<open>handleError\<close> is typed \<^verbatim>\<open>any\<close>: the loader passes a
  string, \<^verbatim>\<open>componentDidCatch\<close> passes the \<^verbatim>\<open>React.ErrorInfo\<close> object, whose one
  field is the component stack.
\<close>

datatype anyMessage = Text string | ErrorInfo string

text \<open>
  \<^verbatim>\<open>PageError\<close> is imported from \<^verbatim>\<open>../components\<close>; its three fields are the ones
  \<^verbatim>\<open>handleError\<close> writes. The field \<^verbatim>\<open>error\<close> is \<open>error'\<close> here, since the state has
  a field of the same name.
\<close>

record 'e PageError =
  error' :: 'e
  errorMessage :: anyMessage
  type :: PageErrorType

text \<open>
  \<^verbatim>\<open>PageState\<close>. A concrete page extends it (\<^verbatim>\<open>S extends PageState\<close>): the
  extension is the \<open>more\<close> part of the record scheme.
\<close>

record 'e PageState =
  pageLoadRetries :: "nat option"
  isLoading :: "bool option"
  isError :: "bool option"
  error :: "'e PageError option"

text \<open>The truth value JavaScript gives an optional boolean in a condition.\<close>

definition truthy :: "bool option \<Rightarrow> bool" where
  "truthy b = (case b of None \<Rightarrow> False | Some v \<Rightarrow> v)"

subsection \<open>State updates inherited from PureComponent\<close>

text \<open>
  Modelled from the spec: \<^verbatim>\<open>setSingleState\<close> and \<^verbatim>\<open>setMultiState\<close> belong to
  \<^verbatim>\<open>PureComponent\<close> (\<^verbatim>\<open>../components\<close>), which is not among the sources. The spec
  speaks of "framework-managed state updates" of the retry counter and the loading and
  error flags: each call merges the keys it names into the state and leaves the others as
  they are. One definition per key the class writes.
\<close>

definition setSingleState_isLoading ::
  "bool \<Rightarrow> ('e, 'm) PageState_scheme \<Rightarrow> ('e, 'm) PageState_scheme" where
  "setSingleState_isLoading v s = s\<lparr>isLoading := Some v\<rparr>"

definition setSingleState_pageLoadRetries ::
  "nat \<Rightarrow> ('e, 'm) PageState_scheme \<Rightarrow> ('e, 'm) PageState_scheme" where
  "setSingleState_pageLoadRetries v s = s\<lparr>pageLoadRetries := Some v\<rparr>"

definition setMultiState_error_isError ::
  "'e PageError \<Rightarrow> bool \<Rightarrow> ('e, 'm) PageState_scheme \<Rightarrow> ('e, 'm) PageState_scheme" where
  "setMultiState_error_isError err flag s = s\<lparr>error := Some err, isError := Some flag\<rparr>"

subsection \<open>PageComponent\<close>

text \<open>
  \<^verbatim>\<open>initializeState\<close>: the argument is what the abstract \<^verbatim>\<open>initializePageState()\<close>
  of the concrete page returns. The calls of the logger service in \<^verbatim>\<open>handleError\<close> and
  \<^verbatim>\<open>loadPageData\<close> write no state and are left out.
\<close>

definition initializeState :: "('e, 'm) PageState_scheme \<Rightarrow> ('e, 'm) PageState_scheme" where
  "initializeState initializePageState = initializePageState\<lparr>isLoading := Some True\<rparr>"

definition isLoadingP :: "('e, 'm) PageState_scheme \<Rightarrow> bool" where
  "isLoadingP s = (if truthy (isLoading s) then True else False)"

definition isErrorP :: "('e, 'm) PageState_scheme \<Rightarrow> bool" where
  "isErrorP s = (if truthy (isError s) then True else False)"

definition getRetries :: "('e, 'm) PageState_scheme \<Rightarrow> nat" where
  "getRetries s = (case pageLoadRetries s of Some n \<Rightarrow> n | None \<Rightarrow> 0)"

definition incrementRetries :: "('e, 'm) PageState_scheme \<Rightarrow> ('e, 'm) PageState_scheme" where
  "incrementRetries s = (let retries = getRetries s + 1 in setSingleState_pageLoadRetries retries s)"

definition handleError ::
  "PageErrorType \<Rightarrow> 'e \<Rightarrow> anyMessage \<Rightarrow> ('e, 'm) PageState_scheme \<Rightarrow> ('e, 'm) PageState_scheme" where
  "handleError errorType err msg s =
     setMultiState_error_isError \<lparr>error' = err, errorMessage = msg, type = errorType\<rparr> True s"

definition handleServerError ::
  "'e \<Rightarrow> string \<Rightarrow> ('e, 'm) PageState_scheme \<Rightarrow> ('e, 'm) PageState_scheme" where
  "handleServerError err msg s = handleError Server err (Text msg) s"

definition componentDidCatch ::
  "'e \<Rightarrow> string \<Rightarrow> ('e, 'm) PageState_scheme \<Rightarrow> ('e, 'm) PageState_scheme" where
  "componentDidCatch err errorInfo s = handleError React err (ErrorInfo errorInfo) s"

text \<open>
  \<^verbatim>\<open>render\<close>: the error page, the spinner, or the page's own content
  (\<^verbatim>\<open>renderPage()\<close>, abstract, a parameter).
\<close>

datatype ('e, 'v) element = ErrorPage "'e PageError option" | Spinner | Page 'v

definition render ::
  "(('e, 'm) PageState_scheme \<Rightarrow> 'v) \<Rightarrow> ('e, 'm) PageState_scheme \<Rightarrow> ('e, 'v) element" where
  "render renderPage s =
     (if isErrorP s then ErrorPage (error s)
      else if truthy (isLoading s) then Spinner
      else Page (renderPage s))"

subsection \<open>Promises\<close>

text \<open>
  A promise returned by \<^verbatim>\<open>createLoaders()\<close> is known by what becomes of it: it
  fulfils at some time, rejects at some time with a reason, or never settles.
\<close>

datatype 'e promise = Fulfils nat | Rejects nat 'e | Pending

text \<open>The return type of \<^verbatim>\<open>createLoaders()\<close>: \<^verbatim>\<open>Promise | Promise[] | null\<close>.\<close>

datatype 'e loaders = Null | Single "'e promise" | Many "'e promise list"

datatype 'e settlement = Fulfilled | Rejected 'e | Unsettled

fun is_Fulfils :: "'e promise \<Rightarrow> bool" where
  "is_Fulfils (Fulfils t) = True"
| "is_Fulfils (Rejects t e) = False"
| "is_Fulfils Pending = False"

fun is_Rejects :: "'e promise \<Rightarrow> bool" where
  "is_Rejects (Fulfils t) = False"
| "is_Rejects (Rejects t e) = True"
| "is_Rejects Pending = False"

text \<open>
  The rejection that comes first in time, the earlier position winning a tie.
\<close>

fun first_rejection :: "'e promise list \<Rightarrow> (nat \<times> 'e) option" where
  "first_rejection [] = None"
| "first_rejection (Rejects t e # ps) =
     (case first_rejection ps of
        None \<Rightarrow> Some (t, e)
      | Some (t', e') \<Rightarrow> if t \<le> t' then Some (t, e) else Some (t', e'))"
| "first_rejection (Fulfils t # ps) = first_rejection ps"
| "first_rejection (Pending # ps) = first_rejection ps"

text \<open>
  \<^verbatim>\<open>Promise.all\<close>: rejects with the reason of the first promise to reject, fulfils
  once every promise has fulfilled, and otherwise never settles.
\<close>

definition Promise_all :: "'e promise list \<Rightarrow> 'e settlement" where
  "Promise_all ps =
     (case first_rejection ps of
        Some (t, e) \<Rightarrow> Rejected e
      | None \<Rightarrow> if list_all is_Fulfils ps then Fulfilled else Unsettled)"

text \<open>
  The array \<^verbatim>\<open>loadPageData\<close> hands to \<^verbatim>\<open>Promise.all\<close>: a single promise is
  wrapped (\<^verbatim>\<open>if (!Array.isArray(loaders)) loaders = [ loaders ]\<close>).
\<close>

definition operations :: "'e loaders \<Rightarrow> 'e promise list" where
  "operations createLoaders =
     (case createLoaders of Null \<Rightarrow> [] | Single p \<Rightarrow> [p] | Many ps \<Rightarrow> ps)"

subsection \<open>The load cycle\<close>

text \<open>
  What one call of \<^verbatim>\<open>loadPageData\<close> leaves behind once its promise has settled:
  nothing, a timer that will call it again after so many milliseconds, or a promise that
  never settles.
\<close>

datatype pending = Finished | Scheduled nat | Waiting

text \<open>
  \<^verbatim>\<open>loadPageData\<close>, one call, with the callbacks of \<^verbatim>\<open>then\<close> and \<^verbatim>\<open>catch\<close> run on
  the settlement of \<^verbatim>\<open>Promise.all\<close>. The first argument is what
  \<^verbatim>\<open>this.createLoaders()\<close> returned in this call.

  This is the call on a page whose \<^verbatim>\<open>renderPage()\<close> returns normally, so that no
  state update throws and the callback of \<^verbatim>\<open>then\<close> returns. The call on any page,
  where the callback of \<^verbatim>\<open>then\<close> may throw into the \<^verbatim>\<open>catch\<close> chained after it, is
  \<open>loadPageData_rendering\<close> below; the two agree when nothing is thrown.
\<close>

definition loadPageData ::
  "'e loaders \<Rightarrow> ('e, 'm) PageState_scheme \<Rightarrow> ('e, 'm) PageState_scheme \<times> pending" where
  "loadPageData createLoaders s =
     (case createLoaders of
        Null \<Rightarrow> (setSingleState_isLoading False s, Finished)
      | _ \<Rightarrow>
          (let loaders = operations createLoaders
           in if length loaders = 0 then (setSingleState_isLoading False s, Finished)
              else
                (let s1 = setSingleState_isLoading True s
                 in case Promise_all loaders of
                      Fulfilled \<Rightarrow> (setSingleState_isLoading False s1, Finished)
                    | Rejected err \<Rightarrow>
                        (let retries = getRetries s1
                         in if retries < MAX_RETRIES
                            then (incrementRetries s1, Scheduled (2 ^ retries * 100))
                            else (handleServerError err ''Error loading page data.'' s1, Finished))
                    | Unsettled \<Rightarrow> (s1, Waiting))))"

text \<open>
  The constructor: the state is \<^verbatim>\<open>initializeState()\<close> and the first
  \<^verbatim>\<open>loadPageData\<close> is on a timer of 10 ms.

  Modelled from the spec: the assignment of \<^verbatim>\<open>this.state\<close> is in the constructor of
  \<^verbatim>\<open>PureComponent\<close>, not among the sources; by the spec the load state is "created
  implicitly when a page instance is constructed".
\<close>

definition PageComponent ::
  "('e, 'm) PageState_scheme \<Rightarrow> ('e, 'm) PageState_scheme \<times> pending" where
  "PageComponent initializePageState = (initializeState initializePageState, Scheduled 10)"

text \<open>
  The event loop firing the retry timers: the run that starts with the call number \<open>k\<close>
  of \<^verbatim>\<open>loadPageData\<close> (counted from 0) in state \<open>s\<close>, where \<open>createLoaders i\<close> is what
  the producer returns in call \<open>i\<close>. It yields the last state, the number of calls of the
  producer so far and the delays of the timers set, in order.
\<close>

record ('e, 'm) run =
  final :: "('e, 'm) PageState_scheme"
  invocations :: nat
  timers :: "nat list"

function runLoader ::
  "(nat \<Rightarrow> 'e loaders) \<Rightarrow> nat \<Rightarrow> ('e, 'm) PageState_scheme \<Rightarrow> ('e, 'm) run" where
  "runLoader createLoaders k s =
     (case loadPageData (createLoaders k) s of
        (s', Scheduled d) \<Rightarrow>
          (let r = runLoader createLoaders (Suc k) s' in r\<lparr>timers := d # timers r\<rparr>)
      | (s', Finished) \<Rightarrow> \<lparr>final = s', invocations = Suc k, timers = []\<rparr>
      | (s', Waiting) \<Rightarrow> \<lparr>final = s', invocations = Suc k, timers = []\<rparr>)"
  by pat_completeness auto

termination
proof (relation "measure (\<lambda>(createLoaders, k, s). MAX_RETRIES - getRetries s)", goal_cases)
  case 1
  show ?case by simp
next
  case (2 createLoaders k s s' p d)
  then have "loadPageData (createLoaders k) s = (s', Scheduled d)"
    by simp
  then have "getRetries s < MAX_RETRIES \<and> getRetries s' = Suc (getRetries s)"
    by (auto simp: loadPageData_def Let_def getRetries_def incrementRetries_def
        setSingleState_isLoading_def setSingleState_pageLoadRetries_def
        split: loaders.splits settlement.splits if_splits option.splits)
  then show ?case by auto
qed

subsection \<open>The lifetime of a page\<close>

text \<open>
  A page is its state and what its loader has pending. After the construction two things
  happen to it: a timer set by the loader fires and \<^verbatim>\<open>loadPageData\<close> runs against what
  the producer returns then, or React reports a fault of rendering to
  \<^verbatim>\<open>componentDidCatch\<close>, at any moment. React reports there the faults of the
  components below the page; what the page's own \<^verbatim>\<open>renderPage()\<close> throws is not
  reported to the page and is no event here: it comes out of the state update that made
  React render, see \<open>loadPageData_rendering\<close>.
\<close>

datatype 'e event = Load "'e loaders" | Fault 'e string

fun fire ::
  "'e event \<Rightarrow> ('e, 'm) PageState_scheme \<times> pending \<Rightarrow> ('e, 'm) PageState_scheme \<times> pending" where
  "fire (Load l) (s, Scheduled d) = loadPageData l s"
| "fire (Load l) (s, Finished) = (s, Finished)"
| "fire (Load l) (s, Waiting) = (s, Waiting)"
| "fire (Fault err errorInfo) (s, p) = (componentDidCatch err errorInfo s, p)"

definition lifetime ::
  "'e event list \<Rightarrow> ('e, 'm) PageState_scheme \<times> pending \<Rightarrow> ('e, 'm) PageState_scheme \<times> pending" where
  "lifetime evs c = fold fire evs c"

subsection \<open>Faults of the page's own rendering\<close>

text \<open>
  \<^verbatim>\<open>render\<close> calls \<^verbatim>\<open>this.renderPage()\<close> with no guard, so \<^verbatim>\<open>render\<close> throws what
  \<^verbatim>\<open>renderPage\<close> throws. Here \<^verbatim>\<open>renderPage\<close> returns \<open>Inr\<close> of the content or
  \<open>Inl\<close> of what it throws.
\<close>

definition render_throwing ::
  "(('e, 'm) PageState_scheme \<Rightarrow> 'e + 'v) \<Rightarrow> ('e, 'm) PageState_scheme \<Rightarrow> 'e + ('e, 'v) element" where
  "render_throwing renderPage s =
     (if isErrorP s then Inr (ErrorPage (error s))
      else if truthy (isLoading s) then Inr Spinner
      else (case renderPage s of Inl e \<Rightarrow> Inl e | Inr v \<Rightarrow> Inr (Page v)))"

text \<open>
  Modelled from the spec: the state updates belong to \<^verbatim>\<open>PureComponent\<close>, which is not
  among the sources; they are "framework-managed state updates". An update made from a
  timer or from a callback of a promise makes React render the page again before the call
  returns, and what \<^verbatim>\<open>render\<close> throws then comes out of the call of
  \<^verbatim>\<open>setSingleState\<close> or \<^verbatim>\<open>setMultiState\<close>, the state being updated already.
  \<open>rerender renderPage s\<close> is what the update to the state \<open>s\<close> throws, if anything.
\<close>

definition rerender ::
  "(('e, 'm) PageState_scheme \<Rightarrow> 'e + 'v) \<Rightarrow> ('e, 'm) PageState_scheme \<Rightarrow> 'e option" where
  "rerender renderPage s =
     (case render_throwing renderPage s of Inl e \<Rightarrow> Some e | Inr el \<Rightarrow> None)"

text \<open>
  The callback of \<^verbatim>\<open>catch\<close> (lines 141 to 152), called with \<open>err\<close> in the state \<open>s\<close>.
  The result is the state, what is pending, and what the callback throws itself, if
  anything: a throw of \<^verbatim>\<open>incrementRetries()\<close> leaves the callback before
  \<^verbatim>\<open>setTimeout\<close>.
\<close>

definition onRejected ::
  "(('e, 'm) PageState_scheme \<Rightarrow> 'e + 'v) \<Rightarrow> 'e \<Rightarrow> ('e, 'm) PageState_scheme
     \<Rightarrow> ('e, 'm) PageState_scheme \<times> pending \<times> 'e option" where
  "onRejected renderPage err s =
     (let retries = getRetries s
      in if retries < MAX_RETRIES
         then (let s' = incrementRetries s
               in case rerender renderPage s' of
                    Some e \<Rightarrow> (s', Finished, Some e)
                  | None \<Rightarrow> (s', Scheduled (2 ^ retries * 100), None))
         else (let s' = handleServerError err ''Error loading page data.'' s
               in (s', Finished, rerender renderPage s')))"

text \<open>
  \<^verbatim>\<open>loadPageData\<close>, one call, on any page. \<^verbatim>\<open>catch\<close> is chained after \<^verbatim>\<open>then\<close>
  (lines 139 to 141), so its callback runs on a rejection of \<^verbatim>\<open>Promise.all\<close> and also
  on a throw of the callback of \<^verbatim>\<open>then\<close>. The third component of the result is what
  leaves the loader uncaught: a throw out of the call itself (lines 130, 136 and 138, run
  from the timer) or out of the callback of \<^verbatim>\<open>catch\<close>.
\<close>

definition loadPageData_rendering ::
  "(('e, 'm) PageState_scheme \<Rightarrow> 'e + 'v) \<Rightarrow> 'e loaders \<Rightarrow> ('e, 'm) PageState_scheme
     \<Rightarrow> ('e, 'm) PageState_scheme \<times> pending \<times> 'e option" where
  "loadPageData_rendering renderPage createLoaders s =
     (case createLoaders of
        Null \<Rightarrow>
          (let s' = setSingleState_isLoading False s in (s', Finished, rerender renderPage s'))
      | _ \<Rightarrow>
          (let loaders = operations createLoaders
           in if length loaders = 0
              then (let s' = setSingleState_isLoading False s
                    in (s', Finished, rerender renderPage s'))
              else
                (let s1 = setSingleState_isLoading True s
                 in case rerender renderPage s1 of
                      Some e \<Rightarrow> (s1, Finished, Some e)
                    | None \<Rightarrow>
                        (case Promise_all loaders of
                           Fulfilled \<Rightarrow>
                             (let s2 = setSingleState_isLoading False s1
                              in case rerender renderPage s2 of
                                   None \<Rightarrow> (s2, Finished, None)
                                 | Some e \<Rightarrow> onRejected renderPage e s2)
                         | Rejected err \<Rightarrow> onRejected renderPage err s1
                         | Unsettled \<Rightarrow> (s1, Waiting, None)))))"

subsection \<open>TenantPageComponent\<close>

text \<open>
  \<^verbatim>\<open>String.prototype.replace\<close> with a string as the pattern replaces the first
  occurrence only, and reads the replacement as a template: \<^verbatim>\<open>$$\<close> is a dollar,
  \<^verbatim>\<open>$&\<close> the matched text, \<^verbatim>\<open>$`\<close> the text before the match and \<^verbatim>\<open>$'\<close> the
  text after it; with no capture groups every other \<^verbatim>\<open>$\<close> stands for itself.
\<close>

fun startsWith :: "string \<Rightarrow> string \<Rightarrow> bool" where
  "startsWith [] s = True"
| "startsWith (p # ps) [] = False"
| "startsWith (p # ps) (c # cs) = (p = c \<and> startsWith ps cs)"

fun indexOf :: "string \<Rightarrow> string \<Rightarrow> nat option" where
  "indexOf pat [] = (if pat = [] then Some 0 else None)"
| "indexOf pat (c # cs) =
     (if startsWith pat (c # cs) then Some 0 else map_option Suc (indexOf pat cs))"

fun GetSubstitution :: "string \<Rightarrow> string \<Rightarrow> string \<Rightarrow> string \<Rightarrow> string" where
  "GetSubstitution matched pre post [] = []"
| "GetSubstitution matched pre post [c] = [c]"
| "GetSubstitution matched pre post (c # d # r) =
     (if c = CHR ''$'' \<and> d = CHR ''$'' then CHR ''$'' # GetSubstitution matched pre post r
      else if c = CHR ''$'' \<and> d = CHR ''&'' then matched @ GetSubstitution matched pre post r
      else if c = CHR ''$'' \<and> d = CHR 0x60 then pre @ GetSubstitution matched pre post r
      else if c = CHR ''$'' \<and> d = CHR 0x27 then post @ GetSubstitution matched pre post r
      else c # GetSubstitution matched pre post (d # r))"

definition replace :: "string \<Rightarrow> string \<Rightarrow> string \<Rightarrow> string" where
  "replace str searchValue replaceValue =
     (case indexOf searchValue str of
        None \<Rightarrow> str
      | Some pos \<Rightarrow>
          (let preceding = take pos str;
               following = drop (pos + length searchValue) str
           in preceding @ GetSubstitution searchValue preceding following replaceValue @ following))"

text \<open>
  The configuration object of the configuration service, of type \<^verbatim>\<open>any\<close>: of its
  fields the class reads \<^verbatim>\<open>artifacts\<close> and \<^verbatim>\<open>ui\<close>, each an object or missing, and
  writes \<^verbatim>\<open>artifacts.url\<close> and \<^verbatim>\<open>ui.navPrefixPath\<close>. All other fields are the
  \<open>more\<close> parts.
\<close>

record artifactsConfig =
  url :: "string option"

record uiConfig =
  navPrefixPath :: "string option"

record ('a, 'u) registryConfig =
  artifacts :: "'a artifactsConfig_scheme option"
  ui :: "'u uiConfig_scheme option"

text \<open>
  \<^verbatim>\<open>tenantId()\<close> is the decoded path parameter, here the argument \<open>tenantId\<close>.
\<close>

definition navPath :: "string \<Rightarrow> string" where
  "navPath tenantId = ''/t/'' @ tenantId"

text \<open>
  \<^verbatim>\<open>federatedConfig\<close>: \<open>config\<close> is what \<^verbatim>\<open>registryConfig()\<close> returns and
  \<open>registryApisUrl\<close> what \<^verbatim>\<open>registryApisUrl()\<close> returns. The source updates the
  object in place and returns it.
\<close>

definition federatedConfig ::
  "('a, 'u, 'c) registryConfig_scheme \<Rightarrow> string \<Rightarrow> string \<Rightarrow> ('a, 'u, 'c) registryConfig_scheme" where
  "federatedConfig config registryApisUrl tenantId =
     (let registryApi = replace (registryApisUrl @ ''/registry'') '':tenantId'' tenantId;
          config1 = (case artifacts config of
                       Some a \<Rightarrow> config\<lparr>artifacts := Some (a\<lparr>url := Some registryApi\<rparr>)\<rparr>
                     | None \<Rightarrow> config);
          config2 = (case ui config1 of
                       Some u \<Rightarrow> config1\<lparr>ui := Some (u\<lparr>navPrefixPath := Some (navPath tenantId)\<rparr>)\<rparr>
                     | None \<Rightarrow> config1)
      in config2)"

section \<open>Properties\<close>

subsection \<open>Auxiliary facts\<close>

declare runLoader.simps [simp del]

lemmas setState_defs =
  setSingleState_isLoading_def setSingleState_pageLoadRetries_def setMultiState_error_isError_def

lemma handleError_update:
  "handleError ty e m s = s\<lparr>error := Some \<lparr>error' = e, errorMessage = m, type = ty\<rparr>, isError := Some True\<rparr>"
  by (simp add: handleError_def setState_defs)

lemma getRetries_simps [simp]:
  "getRetries (s\<lparr>isLoading := l\<rparr>) = getRetries s"
  "getRetries (s\<lparr>isError := b\<rparr>) = getRetries s"
  "getRetries (s\<lparr>error := x\<rparr>) = getRetries s"
  "getRetries (s\<lparr>pageLoadRetries := Some n\<rparr>) = n"
  by (simp_all add: getRetries_def)

lemma loadPageData_none:
  "operations l = [] \<Longrightarrow> loadPageData l s = (s\<lparr>isLoading := Some False\<rparr>, Finished)"
  by (cases l) (simp_all add: loadPageData_def operations_def setState_defs)

lemma loadPageData_settled:
  assumes "operations l \<noteq> []"
  shows "loadPageData l s =
    (case Promise_all (operations l) of
       Fulfilled \<Rightarrow> (s\<lparr>isLoading := Some False\<rparr>, Finished)
     | Rejected e \<Rightarrow>
         if getRetries s < MAX_RETRIES
         then (s\<lparr>isLoading := Some True, pageLoadRetries := Some (getRetries s + 1)\<rparr>,
               Scheduled (2 ^ getRetries s * 100))
         else (s\<lparr>isLoading := Some True,
                 error := Some \<lparr>error' = e, errorMessage = Text ''Error loading page data.'',
                                type = Server\<rparr>,
                 isError := Some True\<rparr>, Finished)
     | Unsettled \<Rightarrow> (s\<lparr>isLoading := Some True\<rparr>, Waiting))"
  using assms
  by (cases l)
     (simp_all add: loadPageData_def operations_def Let_def setState_defs incrementRetries_def
        handleServerError_def handleError_def split: settlement.splits)

lemma first_rejection_None: "first_rejection ps = None \<longleftrightarrow> (\<forall>p\<in>set ps. \<not> is_Rejects p)"
  by (induction ps rule: first_rejection.induct) (auto split: option.splits)

lemma first_rejection_mem: "first_rejection ps = Some (t, e) \<Longrightarrow> Rejects t e \<in> set ps"
  by (induction ps arbitrary: t e rule: first_rejection.induct) (auto split: option.splits if_splits)

lemma is_Fulfils_not_Rejects: "is_Fulfils p \<Longrightarrow> \<not> is_Rejects p"
  by (cases p) simp_all

lemma Promise_all_Fulfilled: "Promise_all ps = Fulfilled \<longleftrightarrow> (\<forall>p\<in>set ps. is_Fulfils p)"
proof (cases "first_rejection ps")
  case None
  then show ?thesis
    by (simp add: Promise_all_def list_all_iff)
next
  case (Some te)
  obtain t e where te: "te = (t, e)"
    by (cases te)
  with Some have "Rejects t e \<in> set ps"
    by (simp add: first_rejection_mem)
  then have "\<not> (\<forall>p\<in>set ps. is_Fulfils p)"
    using is_Fulfils_not_Rejects by fastforce
  with Some te show ?thesis
    by (simp add: Promise_all_def)
qed

lemma Promise_all_Rejected:
  "(\<exists>p\<in>set ps. is_Rejects p) \<Longrightarrow> \<exists>t e. Rejects t e \<in> set ps \<and> Promise_all ps = Rejected e"
proof -
  assume "\<exists>p\<in>set ps. is_Rejects p"
  then obtain t e where "first_rejection ps = Some (t, e)"
    using first_rejection_None [of ps] by (cases "first_rejection ps") auto
  then show ?thesis
    using first_rejection_mem [of ps t e] by (auto simp: Promise_all_def)
qed

lemma runLoader_Scheduled:
  "loadPageData (createLoaders k) s = (s', Scheduled d) \<Longrightarrow>
   runLoader createLoaders k s =
     (runLoader createLoaders (Suc k) s')\<lparr>timers := d # timers (runLoader createLoaders (Suc k) s')\<rparr>"
  by (subst runLoader.simps) (simp add: Let_def)

lemma runLoader_Finished:
  "loadPageData (createLoaders k) s = (s', Finished) \<Longrightarrow>
   runLoader createLoaders k s = \<lparr>final = s', invocations = Suc k, timers = []\<rparr>"
  by (subst runLoader.simps) simp

lemma runLoader_Waiting:
  "loadPageData (createLoaders k) s = (s', Waiting) \<Longrightarrow>
   runLoader createLoaders k s = \<lparr>final = s', invocations = Suc k, timers = []\<rparr>"
  by (subst runLoader.simps) simp

lemma loadPageData_cases:
  obtains (none) "operations l = []" "loadPageData l s = (s\<lparr>isLoading := Some False\<rparr>, Finished)"
  | (fulfilled) "operations l \<noteq> []" "Promise_all (operations l) = Fulfilled"
      "loadPageData l s = (s\<lparr>isLoading := Some False\<rparr>, Finished)"
  | (retry) e where "operations l \<noteq> []" "Promise_all (operations l) = Rejected e"
      "getRetries s < MAX_RETRIES"
      "loadPageData l s =
         (s\<lparr>isLoading := Some True, pageLoadRetries := Some (getRetries s + 1)\<rparr>,
          Scheduled (2 ^ getRetries s * 100))"
  | (exhausted) e where "operations l \<noteq> []" "Promise_all (operations l) = Rejected e"
      "\<not> getRetries s < MAX_RETRIES"
      "loadPageData l s =
         (s\<lparr>isLoading := Some True,
            error := Some \<lparr>error' = e, errorMessage = Text ''Error loading page data.'',
                           type = Server\<rparr>,
            isError := Some True\<rparr>, Finished)"
  | (unsettled) "operations l \<noteq> []" "Promise_all (operations l) = Unsettled"
      "loadPageData l s = (s\<lparr>isLoading := Some True\<rparr>, Waiting)"
proof (cases "operations l = []")
  case True
  then show ?thesis
    using none loadPageData_none by blast
next
  case False
  note settled = loadPageData_settled [OF False, of s]
  show ?thesis
  proof (cases "Promise_all (operations l)")
    case Fulfilled
    with False settled show ?thesis
      using fulfilled by simp
  next
    case (Rejected e)
    with False settled show ?thesis
      using retry [of e] exhausted [of e] by (cases "getRetries s < MAX_RETRIES") simp_all
  next
    case Unsettled
    with False settled show ?thesis
      using unsettled by simp
  qed
qed

lemma loadPageData_isError:
  "isError s = Some True \<Longrightarrow> isError (fst (loadPageData l s)) = Some True"
  by (cases l s rule: loadPageData_cases) simp_all

lemma loadPageData_getRetries_mono: "getRetries s \<le> getRetries (fst (loadPageData l s))"
  by (cases l s rule: loadPageData_cases) simp_all

lemma loadPageData_getRetries_bound:
  "getRetries s \<le> MAX_RETRIES \<Longrightarrow> getRetries (fst (loadPageData l s)) \<le> MAX_RETRIES"
  by (cases l s rule: loadPageData_cases) simp_all

lemma componentDidCatch_update:
  "componentDidCatch err errorInfo s =
     s\<lparr>error := Some \<lparr>error' = err, errorMessage = ErrorInfo errorInfo, type = React\<rparr>,
       isError := Some True\<rparr>"
  by (simp add: componentDidCatch_def handleError_update)

lemma fire_isError:
  "isError (fst c) = Some True \<Longrightarrow> isError (fst (fire ev c)) = Some True"
  by (cases "(ev, c)" rule: fire.cases) (simp_all add: loadPageData_isError componentDidCatch_update)

lemma fire_getRetries_mono: "getRetries (fst c) \<le> getRetries (fst (fire ev c))"
  by (cases "(ev, c)" rule: fire.cases)
     (simp_all add: loadPageData_getRetries_mono componentDidCatch_update)

lemma fire_getRetries_bound:
  "getRetries (fst c) \<le> MAX_RETRIES \<Longrightarrow> getRetries (fst (fire ev c)) \<le> MAX_RETRIES"
  by (cases "(ev, c)" rule: fire.cases)
     (simp_all add: loadPageData_getRetries_bound componentDidCatch_update)

lemma lifetime_isError:
  "isError (fst c) = Some True \<Longrightarrow> isError (fst (lifetime evs c)) = Some True"
  unfolding lifetime_def by (induction evs arbitrary: c) (simp_all add: fire_isError)

lemma lifetime_getRetries_mono: "getRetries (fst c) \<le> getRetries (fst (lifetime evs c))"
  unfolding lifetime_def
proof (induction evs arbitrary: c)
  case Nil
  show ?case by simp
next
  case (Cons ev evs)
  have "getRetries (fst c) \<le> getRetries (fst (fire ev c))"
    by (rule fire_getRetries_mono)
  also have "\<dots> \<le> getRetries (fst (fold fire evs (fire ev c)))"
    by (rule Cons.IH)
  finally show ?case by simp
qed

lemma lifetime_getRetries_bound:
  "getRetries (fst c) \<le> MAX_RETRIES \<Longrightarrow> getRetries (fst (lifetime evs c)) \<le> MAX_RETRIES"
  unfolding lifetime_def by (induction evs arbitrary: c) (simp_all add: fire_getRetries_bound)

lemma runLoader_retry:
  assumes "operations (createLoaders k) \<noteq> []"
    and "Promise_all (operations (createLoaders k)) = Rejected e"
    and "getRetries s < MAX_RETRIES"
    and "s' = s\<lparr>isLoading := Some True, pageLoadRetries := Some (getRetries s + 1)\<rparr>"
    and "k' = Suc k"
    and "d = 2 ^ getRetries s * 100"
  shows "runLoader createLoaders k s =
    (runLoader createLoaders k' s')\<lparr>timers := d # timers (runLoader createLoaders k' s')\<rparr>"
  unfolding assms(4-6) using assms(1-3)
  by (intro runLoader_Scheduled) (simp add: loadPageData_settled)

lemma runLoader_exhausted:
  assumes "operations (createLoaders k) \<noteq> []"
    and "Promise_all (operations (createLoaders k)) = Rejected e"
    and "\<not> getRetries s < MAX_RETRIES"
  shows "runLoader createLoaders k s =
    \<lparr>final = s\<lparr>isLoading := Some True,
         error := Some \<lparr>error' = e, errorMessage = Text ''Error loading page data.'', type = Server\<rparr>,
         isError := Some True\<rparr>,
     invocations = Suc k, timers = []\<rparr>"
  using assms by (intro runLoader_Finished) (simp add: loadPageData_settled)

lemma runLoader_fulfilled:
  assumes "operations (createLoaders k) \<noteq> []"
    and "Promise_all (operations (createLoaders k)) = Fulfilled"
  shows "runLoader createLoaders k s =
    \<lparr>final = s\<lparr>isLoading := Some False\<rparr>, invocations = Suc k, timers = []\<rparr>"
  using assms by (intro runLoader_Finished) (simp add: loadPageData_settled)

lemma startsWith_append_foreign:
  "c \<notin> set pat \<Longrightarrow> \<not> startsWith pat xs \<Longrightarrow> \<not> startsWith pat (xs @ c # r)"
proof (induction pat xs rule: startsWith.induct)
  case (1 s)
  then show ?case by simp
next
  case (2 p ps)
  then show ?case by auto
next
  case (3 p ps x xs)
  then show ?case by auto
qed

lemma indexOf_append_foreign:
  "indexOf pat p = None \<Longrightarrow> c \<notin> set pat \<Longrightarrow>
   indexOf pat (p @ c # r) = map_option (\<lambda>i. Suc (length p) + i) (indexOf pat r)"
proof (induction p)
  case Nil
  then have "pat \<noteq> []"
    by (auto split: if_splits)
  with Nil have "\<not> startsWith pat (c # r)"
    by (cases pat) auto
  then show ?case
    by (simp add: option.map_comp comp_def)
next
  case (Cons x xs)
  from Cons.prems have no: "\<not> startsWith pat (x # xs)" and rest: "indexOf pat xs = None"
    by (auto split: if_splits)
  from no Cons.prems(2) have "\<not> startsWith pat ((x # xs) @ c # r)"
    by (intro startsWith_append_foreign)
  with Cons.IH [OF rest Cons.prems(2)] show ?case
    by (simp add: option.map_comp comp_def)
qed

lemma GetSubstitution_plain:
  "CHR ''$'' \<notin> set replaceValue \<Longrightarrow> GetSubstitution matched pre post replaceValue = replaceValue"
  by (induction matched pre post replaceValue rule: GetSubstitution.induct) auto

lemma replace_tenantId:
  assumes "indexOf '':tenantId'' p = None" and "CHR ''$'' \<notin> set tenantId"
  shows "replace ((p @ ''/t/:tenantId'') @ ''/registry'') '':tenantId'' tenantId
    = p @ ''/t/'' @ tenantId @ ''/registry''"
proof -
  have "indexOf '':tenantId'' (p @ CHR ''/'' # ''t/:tenantId/registry'')
      = map_option (\<lambda>i. Suc (length p) + i) (indexOf '':tenantId'' ''t/:tenantId/registry'')"
    using assms(1) by (intro indexOf_append_foreign) simp_all
  then have pos: "indexOf '':tenantId'' (p @ ''/t/:tenantId/registry'') = Some (length p + 3)"
    by simp
  show ?thesis
    using assms(2) by (simp add: replace_def pos GetSubstitution_plain)
qed

text \<open>
  A run of the loader is a lifetime without faults of rendering: its last state is the one
  reached by the load cycles of the calls \<open>k\<close>, \<open>k + 1\<close>, ... of the producer.
\<close>

lemma runLoader_final_Load:
  "\<exists>n. final (runLoader createLoaders k s) =
     fst (lifetime (map (\<lambda>i. Load (createLoaders i)) [k..<k + n]) (s, Scheduled d))
     \<and> invocations (runLoader createLoaders k s) = k + n"
proof (induction createLoaders k s arbitrary: d rule: runLoader.induct)
  case (1 createLoaders k s)
  obtain s' p where cycle: "loadPageData (createLoaders k) s = (s', p)"
    by (cases "loadPageData (createLoaders k) s")
  show ?case
  proof (cases p)
    case Finished
    with cycle have "runLoader createLoaders k s = \<lparr>final = s', invocations = Suc k, timers = []\<rparr>"
      by (simp add: runLoader_Finished)
    with cycle show ?thesis
      by (intro exI [of _ 1]) (simp add: lifetime_def)
  next
    case (Scheduled d')
    with cycle have run: "runLoader createLoaders k s =
        (runLoader createLoaders (Suc k) s')\<lparr>timers := d' # timers (runLoader createLoaders (Suc k) s')\<rparr>"
      by (simp add: runLoader_Scheduled)
    from "1.IH" [OF cycle [symmetric] Scheduled, of d']
    obtain n where n: "final (runLoader createLoaders (Suc k) s') =
        fst (lifetime (map (\<lambda>i. Load (createLoaders i)) [Suc k..<Suc k + n]) (s', Scheduled d'))"
      "invocations (runLoader createLoaders (Suc k) s') = Suc k + n"
      by blast
    have upt: "[k..<k + Suc n] = k # [Suc k..<Suc k + n]"
      by (simp add: upt_conv_Cons)
    have "final (runLoader createLoaders k s) =
        fst (lifetime (map (\<lambda>i. Load (createLoaders i)) [k..<k + Suc n]) (s, Scheduled d))"
      unfolding upt using n(1) cycle Scheduled by (simp add: run lifetime_def)
    moreover have "invocations (runLoader createLoaders k s) = k + Suc n"
      using n(2) by (simp add: run)
    ultimately show ?thesis
      by blast
  next
    case Waiting
    with cycle have "runLoader createLoaders k s = \<lparr>final = s', invocations = Suc k, timers = []\<rparr>"
      by (simp add: runLoader_Waiting)
    with cycle show ?thesis
      by (intro exI [of _ 1]) (simp add: lifetime_def)
  qed
qed

text \<open>
  The page is not rendered by \<^verbatim>\<open>renderPage()\<close> while it is loading or in the error
  state, so the state updates made then throw nothing; a rejection of \<^verbatim>\<open>Promise.all\<close>
  is handled with \<^verbatim>\<open>isLoading\<close> true. When no update throws, the call on any page is
  the call on a page that renders normally.
\<close>

lemma rerender_not_called:
  "isErrorP s \<or> truthy (isLoading s) \<Longrightarrow> rerender renderPage s = None"
  by (auto simp: rerender_def render_throwing_def)

lemma rerender_loading [simp]: "rerender renderPage (s\<lparr>isLoading := Some True\<rparr>) = None"
  by (simp add: rerender_not_called truthy_def)

lemma rerender_isError [simp]: "rerender renderPage (s\<lparr>isError := Some True\<rparr>) = None"
  by (simp add: rerender_not_called isErrorP_def truthy_def)

lemma onRejected_loading:
  "isLoading s = Some True \<Longrightarrow>
   onRejected renderPage err s =
     (if getRetries s < MAX_RETRIES
      then (s\<lparr>pageLoadRetries := Some (getRetries s + 1)\<rparr>, Scheduled (2 ^ getRetries s * 100), None)
      else (s\<lparr>error := Some \<lparr>error' = err, errorMessage = Text ''Error loading page data.'',
                              type = Server\<rparr>,
              isError := Some True\<rparr>, Finished, None))"
  by (simp add: onRejected_def Let_def incrementRetries_def setState_defs handleServerError_def
      handleError_def rerender_not_called truthy_def isErrorP_def)

lemma loadPageData_rendering_rejected:
  assumes "operations l \<noteq> []" and "Promise_all (operations l) = Rejected err"
  shows "loadPageData_rendering renderPage l s =
     (if getRetries s < MAX_RETRIES
      then (s\<lparr>isLoading := Some True, pageLoadRetries := Some (getRetries s + 1)\<rparr>,
            Scheduled (2 ^ getRetries s * 100), None)
      else (s\<lparr>isLoading := Some True,
              error := Some \<lparr>error' = err, errorMessage = Text ''Error loading page data.'',
                              type = Server\<rparr>,
              isError := Some True\<rparr>, Finished, None))"
  using assms
  by (cases l)
     (simp_all add: loadPageData_rendering_def operations_def Let_def setSingleState_isLoading_def
        onRejected_loading)

lemma loadPageData_rendering_fulfilled:
  assumes "operations l \<noteq> []" and "Promise_all (operations l) = Fulfilled"
  shows "loadPageData_rendering renderPage l s =
     (case rerender renderPage (s\<lparr>isLoading := Some False\<rparr>) of
        None \<Rightarrow> (s\<lparr>isLoading := Some False\<rparr>, Finished, None)
      | Some e \<Rightarrow> onRejected renderPage e (s\<lparr>isLoading := Some False\<rparr>))"
  using assms
  by (cases l)
     (simp_all add: loadPageData_rendering_def operations_def Let_def setSingleState_isLoading_def)

lemma loadPageData_rendering_none:
  "operations l = [] \<Longrightarrow>
   loadPageData_rendering renderPage l s =
     (s\<lparr>isLoading := Some False\<rparr>, Finished, rerender renderPage (s\<lparr>isLoading := Some False\<rparr>))"
  by (cases l)
     (simp_all add: loadPageData_rendering_def operations_def Let_def setSingleState_isLoading_def)

lemma loadPageData_rendering_returns:
  assumes "\<And>s'. rerender renderPage s' = None"
  shows "loadPageData_rendering renderPage l s =
    (fst (loadPageData l s), snd (loadPageData l s), None)"
  by (cases l)
     (simp_all add: loadPageData_rendering_def loadPageData_def onRejected_def Let_def assms
        split: settlement.splits)

subsection \<open>The initial state\<close>

text \<open>
  C8. At the construction of a page the state is \<^verbatim>\<open>initializeState()\<close>, which sets
  \<^verbatim>\<open>isLoading\<close> to true over whatever the concrete page's \<^verbatim>\<open>initializePageState()\<close>
  returns and writes nothing else. For a concrete page whose own initial state leaves the
  loader's fields unset, the page starts loading, with a retry count of 0 and no error
  recorded.
\<close>

theorem initializeState_initial:
  assumes "pageLoadRetries initializePageState = None"
    and "isError initializePageState = None"
    and "error initializePageState = None"
  shows "fst (PageComponent initializePageState) = initializeState initializePageState
    \<and> isLoading (initializeState initializePageState) = Some True
    \<and> isLoadingP (initializeState initializePageState)
    \<and> getRetries (initializeState initializePageState) = 0
    \<and> \<not> isErrorP (initializeState initializePageState)
    \<and> error (initializeState initializePageState) = None"
  using assms
  by (simp add: PageComponent_def initializeState_def isLoadingP_def isErrorP_def truthy_def
      getRetries_def)

theorem initializeState_initial_witness:
  "isLoading (initializeState
      \<lparr>pageLoadRetries = None, isLoading = None, isError = None, error = None :: nat PageError option\<rparr>)
     = Some True
   \<and> getRetries (initializeState
      \<lparr>pageLoadRetries = None, isLoading = None, isError = None, error = None :: nat PageError option\<rparr>)
     = 0
   \<and> error (initializeState
      \<lparr>pageLoadRetries = None, isLoading = None, isError = None, error = None :: nat PageError option\<rparr>)
     = None"
  using initializeState_initial
    [of "\<lparr>pageLoadRetries = None, isLoading = None, isError = None, error = None :: nat PageError option\<rparr>"]
  by simp

subsection \<open>The error state\<close>

text \<open>
  C9. \<^verbatim>\<open>handleError\<close> writes the error record and the flag \<^verbatim>\<open>isError\<close> and nothing
  else: the retry count, the flag \<^verbatim>\<open>isLoading\<close> and the page's own fields stay as they
  were (so \<^verbatim>\<open>isLoading\<close> may still be true). \<^verbatim>\<open>render\<close> shows the error page
  whenever \<^verbatim>\<open>isError\<close> is set, whatever \<^verbatim>\<open>isLoading\<close> is.
\<close>

theorem handleError_frame:
  "handleError errorType err msg s =
     s\<lparr>error := Some \<lparr>error' = err, errorMessage = msg, type = errorType\<rparr>, isError := Some True\<rparr>
   \<and> pageLoadRetries (handleError errorType err msg s) = pageLoadRetries s
   \<and> getRetries (handleError errorType err msg s) = getRetries s
   \<and> isLoading (handleError errorType err msg s) = isLoading s
   \<and> PageState.more (handleError errorType err msg s) = PageState.more s
   \<and> render renderPage (handleError errorType err msg s) =
       ErrorPage (Some \<lparr>error' = err, errorMessage = msg, type = errorType\<rparr>)
   \<and> (isError s = Some True \<longrightarrow> render renderPage s = ErrorPage (error s))"
  by (simp add: handleError_update render_def isErrorP_def truthy_def)

theorem handleError_frame_witness:
  "isError \<lparr>pageLoadRetries = Some 2, isLoading = Some True, isError = Some True,
      error = None :: nat PageError option\<rparr> = Some True
   \<and> render (\<lambda>s. ())
       \<lparr>pageLoadRetries = Some 2, isLoading = Some True, isError = Some True,
          error = None :: nat PageError option\<rparr>
     = ErrorPage None"
  using handleError_frame [of Server "0::nat" "Text ''x''"
      "\<lparr>pageLoadRetries = Some 2, isLoading = Some True, isError = Some True, error = None\<rparr>"
      "\<lambda>s. ()"]
  by simp

text \<open>
  A fault of rendering that React reports to \<^verbatim>\<open>componentDidCatch\<close> is recorded with the
  category \<^verbatim>\<open>React\<close> and sets \<^verbatim>\<open>isError\<close>: the retry count stays what it was (0 on
  a fresh page), no timer is set (what the loader has pending is unchanged), the error
  page is rendered, and the page stays in the error state whatever happens later. A fault
  of loading with the retry count below the maximum, in contrast, raises the count and
  sets a timer.
\<close>

theorem componentDidCatch_not_retried:
  "fire (Fault err errorInfo) (s, p) =
     (s\<lparr>error := Some \<lparr>error' = err, errorMessage = ErrorInfo errorInfo, type = React\<rparr>,
        isError := Some True\<rparr>, p)
   \<and> getRetries (componentDidCatch err errorInfo s) = getRetries s
   \<and> render renderPage (componentDidCatch err errorInfo s) =
       ErrorPage (Some \<lparr>error' = err, errorMessage = ErrorInfo errorInfo, type = React\<rparr>)
   \<and> (\<forall>evs. isErrorP (fst (lifetime evs (fire (Fault err errorInfo) (s, p)))))
   \<and> (pageLoadRetries initializePageState = None \<longrightarrow>
        getRetries (fst (fire (Fault err errorInfo) (PageComponent initializePageState))) = 0
        \<and> snd (fire (Fault err errorInfo) (PageComponent initializePageState)) = Scheduled 10)
   \<and> (operations l \<noteq> [] \<and> Promise_all (operations l) = Rejected err
        \<and> getRetries s < MAX_RETRIES \<longrightarrow>
        loadPageData l s =
          (s\<lparr>isLoading := Some True, pageLoadRetries := Some (getRetries s + 1)\<rparr>,
           Scheduled (2 ^ getRetries s * 100)))"
proof -
  have terminal: "isErrorP (fst (lifetime evs (fire (Fault err errorInfo) (s, p))))" for evs
    using lifetime_isError [of "fire (Fault err errorInfo) (s, p)" evs]
    by (simp add: componentDidCatch_update isErrorP_def truthy_def)
  have fresh: "getRetries (fst (fire (Fault err errorInfo) (PageComponent initializePageState))) = 0
      \<and> snd (fire (Fault err errorInfo) (PageComponent initializePageState)) = Scheduled 10"
    if "pageLoadRetries initializePageState = None"
    using that
    by (simp add: PageComponent_def initializeState_def componentDidCatch_update getRetries_def)
  have load: "loadPageData l s =
          (s\<lparr>isLoading := Some True, pageLoadRetries := Some (getRetries s + 1)\<rparr>,
           Scheduled (2 ^ getRetries s * 100))"
    if "operations l \<noteq> []" "Promise_all (operations l) = Rejected err" "getRetries s < MAX_RETRIES"
    using that by (simp add: loadPageData_settled)
  have step: "fire (Fault err errorInfo) (s, p) =
     (s\<lparr>error := Some \<lparr>error' = err, errorMessage = ErrorInfo errorInfo, type = React\<rparr>,
        isError := Some True\<rparr>, p)"
    by (simp add: componentDidCatch_update)
  have retries: "getRetries (componentDidCatch err errorInfo s) = getRetries s"
    by (simp add: componentDidCatch_update)
  have view: "render renderPage (componentDidCatch err errorInfo s) =
       ErrorPage (Some \<lparr>error' = err, errorMessage = ErrorInfo errorInfo, type = React\<rparr>)"
    by (simp add: componentDidCatch_update render_def isErrorP_def truthy_def)
  from step retries view terminal fresh load show ?thesis
    by blast
qed

theorem componentDidCatch_not_retried_witness:
  "pageLoadRetries \<lparr>pageLoadRetries = None, isLoading = None, isError = None,
      error = None :: nat PageError option\<rparr> = None
   \<and> getRetries (fst (fire (Fault (7::nat) ''stack'')
       (PageComponent \<lparr>pageLoadRetries = None, isLoading = None, isError = None, error = None\<rparr>)))
     = 0
   \<and> snd (fire (Fault (7::nat) ''stack'')
       (PageComponent \<lparr>pageLoadRetries = None, isLoading = None, isError = None, error = None\<rparr>))
     = Scheduled 10
   \<and> operations (Single (Rejects 0 (7::nat))) \<noteq> []
   \<and> Promise_all (operations (Single (Rejects 0 (7::nat)))) = Rejected 7
   \<and> getRetries \<lparr>pageLoadRetries = None, isLoading = Some True, isError = None,
        error = None :: nat PageError option\<rparr> < MAX_RETRIES
   \<and> loadPageData (Single (Rejects 0 (7::nat)))
       \<lparr>pageLoadRetries = None, isLoading = Some True, isError = None, error = None\<rparr>
     = (\<lparr>pageLoadRetries = Some 1, isLoading = Some True, isError = None, error = None\<rparr>,
        Scheduled 100)"
  using componentDidCatch_not_retried [of "7::nat" "''stack''"
      "\<lparr>pageLoadRetries = None, isLoading = Some True, isError = None, error = None\<rparr>"
      "Scheduled 10" "\<lambda>s. ()"
      "\<lparr>pageLoadRetries = None, isLoading = None, isError = None, error = None\<rparr>"
      "Single (Rejects 0 7)"]
  by (simp add: operations_def Promise_all_def getRetries_def MAX_RETRIES_def)

text \<open>
  C5. A fault of rendering is retried all the same when it is the page's own
  \<^verbatim>\<open>renderPage()\<close> that throws while React renders the loaded page: the throw comes out
  of \<^verbatim>\<open>setSingleState("isLoading", false)\<close> in the callback of \<^verbatim>\<open>then\<close> and is
  taken by the \<^verbatim>\<open>catch\<close> chained after it, as if the load had failed. On a fresh page
  whose one operation fulfils and whose \<^verbatim>\<open>renderPage()\<close> throws 9 in that first
  rendering, the retry count becomes 1 and a timer of 100 ms is set, with no error state.
  With the retry count at 5, the fault 9 of rendering is recorded with the message
  "Error loading page data." and the category \<^verbatim>\<open>Server\<close>.
\<close>

theorem rendering_fault_retried:
  "Promise_all (operations (Single (Fulfils 0 :: nat promise))) = Fulfilled
   \<and> loadPageData_rendering (\<lambda>s. if pageLoadRetries s = None then Inl 9 else Inr ())
        (Single (Fulfils 0))
        \<lparr>pageLoadRetries = None, isLoading = Some True, isError = None,
           error = None :: nat PageError option\<rparr>
      = (\<lparr>pageLoadRetries = Some 1, isLoading = Some False, isError = None, error = None\<rparr>,
         Scheduled 100, None)
   \<and> loadPageData_rendering (\<lambda>s. Inl 9 :: nat + unit) (Single (Fulfils 0))
        \<lparr>pageLoadRetries = Some 5, isLoading = Some True, isError = None, error = None\<rparr>
      = (\<lparr>pageLoadRetries = Some 5, isLoading = Some False, isError = Some True,
          error = Some \<lparr>error' = 9, errorMessage = Text ''Error loading page data.'',
                         type = Server\<rparr>\<rparr>,
         Finished, None)"
  by (simp add: loadPageData_rendering_def operations_def Promise_all_def Let_def
      setState_defs rerender_def render_throwing_def isErrorP_def truthy_def onRejected_def
      getRetries_def MAX_RETRIES_def incrementRetries_def handleServerError_def handleError_def)

subsection \<open>One load cycle\<close>

text \<open>
  C4. When the producer yields no operations (\<^verbatim>\<open>null\<close> or an empty array) the call
  of \<^verbatim>\<open>loadPageData\<close> sets \<^verbatim>\<open>isLoading\<close> to false at once and ends the run: no
  timer, retry count and error untouched, so on a fresh page the retry count is 0 and
  there is no error.
\<close>

theorem loadPageData_no_operations:
  assumes "createLoaders k = Null \<or> createLoaders k = Many []"
  shows "loadPageData (createLoaders k) s = (s\<lparr>isLoading := Some False\<rparr>, Finished)
    \<and> runLoader createLoaders k s =
        \<lparr>final = s\<lparr>isLoading := Some False\<rparr>, invocations = Suc k, timers = []\<rparr>
    \<and> getRetries (final (runLoader createLoaders k s)) = getRetries s
    \<and> isError (final (runLoader createLoaders k s)) = isError s
    \<and> error (final (runLoader createLoaders k s)) = error s
    \<and> (k = 0 \<and> s = initializeState initializePageState
        \<and> pageLoadRetries initializePageState = None \<and> isError initializePageState = None
        \<and> error initializePageState = None \<longrightarrow>
        \<not> isLoadingP (final (runLoader createLoaders k s))
        \<and> getRetries (final (runLoader createLoaders k s)) = 0
        \<and> \<not> isErrorP (final (runLoader createLoaders k s))
        \<and> error (final (runLoader createLoaders k s)) = None
        \<and> invocations (runLoader createLoaders k s) = 1)"
proof -
  from assms have "operations (createLoaders k) = []"
    by (auto simp: operations_def)
  then have cycle: "loadPageData (createLoaders k) s = (s\<lparr>isLoading := Some False\<rparr>, Finished)"
    by (rule loadPageData_none)
  then have run: "runLoader createLoaders k s =
      \<lparr>final = s\<lparr>isLoading := Some False\<rparr>, invocations = Suc k, timers = []\<rparr>"
    by (rule runLoader_Finished)
  show ?thesis
    unfolding run using cycle
    by (simp add: initializeState_def isLoadingP_def isErrorP_def truthy_def getRetries_def)
qed

theorem loadPageData_no_operations_witness:
  "operations (Many [] :: nat loaders) = []
   \<and> runLoader (\<lambda>k. Many []) 0
        (initializeState \<lparr>pageLoadRetries = None, isLoading = None, isError = None,
           error = None :: nat PageError option\<rparr>)
     = \<lparr>final = \<lparr>pageLoadRetries = None, isLoading = Some False, isError = None, error = None\<rparr>,
        invocations = 1, timers = []\<rparr>
   \<and> getRetries (final (runLoader (\<lambda>k. Many []) 0
        (initializeState \<lparr>pageLoadRetries = None, isLoading = None, isError = None,
           error = None :: nat PageError option\<rparr>))) = 0"
  using loadPageData_no_operations [of "\<lambda>k. Many []" 0
      "initializeState \<lparr>pageLoadRetries = None, isLoading = None, isError = None,
           error = None :: nat PageError option\<rparr>"
      "\<lparr>pageLoadRetries = None, isLoading = None, isError = None,
           error = None :: nat PageError option\<rparr>"]
  by (simp add: initializeState_def getRetries_def operations_def)

text \<open>
  C3. When the producer yields one or more operations, the cycle ends in the success
  state (\<^verbatim>\<open>isLoading\<close> false) exactly when every operation fulfils, however many
  there are; if any operation rejects, the cycle fails as a whole: it takes the branch of
  \<^verbatim>\<open>catch\<close>, with the reason of one of the rejected operations.
\<close>

theorem loadPageData_all_or_nothing:
  assumes "operations l \<noteq> []"
  shows "(loadPageData l s = (s\<lparr>isLoading := Some False\<rparr>, Finished))
           = (\<forall>p\<in>set (operations l). is_Fulfils p)
    \<and> (isLoading (fst (loadPageData l s)) = Some False)
           = (\<forall>p\<in>set (operations l). is_Fulfils p)
    \<and> ((\<exists>p\<in>set (operations l). is_Rejects p) \<longrightarrow>
         (\<exists>t e. Rejects t e \<in> set (operations l)
            \<and> loadPageData l s =
                (if getRetries s < MAX_RETRIES
                 then (s\<lparr>isLoading := Some True, pageLoadRetries := Some (getRetries s + 1)\<rparr>,
                       Scheduled (2 ^ getRetries s * 100))
                 else (s\<lparr>isLoading := Some True,
                         error := Some \<lparr>error' = e, errorMessage = Text ''Error loading page data.'',
                                        type = Server\<rparr>,
                         isError := Some True\<rparr>, Finished))))"
proof -
  have loading: "isLoading (fst (loadPageData l s)) = Some False
      \<longleftrightarrow> Promise_all (operations l) = Fulfilled"
    using assms by (cases l s rule: loadPageData_cases) simp_all
  have success: "loadPageData l s = (s\<lparr>isLoading := Some False\<rparr>, Finished)
      \<longleftrightarrow> Promise_all (operations l) = Fulfilled"
  proof
    assume "loadPageData l s = (s\<lparr>isLoading := Some False\<rparr>, Finished)"
    then have "isLoading (fst (loadPageData l s)) = Some False"
      by simp
    with loading show "Promise_all (operations l) = Fulfilled"
      by simp
  next
    assume "Promise_all (operations l) = Fulfilled"
    with assms show "loadPageData l s = (s\<lparr>isLoading := Some False\<rparr>, Finished)"
      by (simp add: loadPageData_settled)
  qed
  have failure: "\<exists>t e. Rejects t e \<in> set (operations l)
            \<and> loadPageData l s =
                (if getRetries s < MAX_RETRIES
                 then (s\<lparr>isLoading := Some True, pageLoadRetries := Some (getRetries s + 1)\<rparr>,
                       Scheduled (2 ^ getRetries s * 100))
                 else (s\<lparr>isLoading := Some True,
                         error := Some \<lparr>error' = e, errorMessage = Text ''Error loading page data.'',
                                        type = Server\<rparr>,
                         isError := Some True\<rparr>, Finished))"
    if "\<exists>p\<in>set (operations l). is_Rejects p"
  proof -
    from that obtain t e where "Rejects t e \<in> set (operations l)"
        and "Promise_all (operations l) = Rejected e"
      using Promise_all_Rejected by blast
    with assms show ?thesis
      by (auto simp: loadPageData_settled)
  qed
  from loading success failure show ?thesis
    by (simp add: Promise_all_Fulfilled)
qed

theorem loadPageData_all_or_nothing_witness:
  "operations (Many [Fulfils 0, Fulfils 3, Fulfils 2 :: nat promise]) \<noteq> []
   \<and> list_all is_Fulfils (operations (Many [Fulfils 0, Fulfils 3, Fulfils 2 :: nat promise]))
   \<and> loadPageData (Many [Fulfils 0, Fulfils 3, Fulfils 2 :: nat promise])
        \<lparr>pageLoadRetries = None, isLoading = Some True, isError = None, error = None\<rparr>
      = (\<lparr>pageLoadRetries = None, isLoading = Some False, isError = None, error = None\<rparr>, Finished)
   \<and> operations (Many [Fulfils 0, Rejects 3 (7::nat), Fulfils 2]) \<noteq> []
   \<and> list_ex is_Rejects (operations (Many [Fulfils 0, Rejects 3 (7::nat), Fulfils 2]))
   \<and> isLoading (fst (loadPageData (Many [Fulfils 0, Rejects 3 (7::nat), Fulfils 2])
        \<lparr>pageLoadRetries = None, isLoading = Some True, isError = None, error = None\<rparr>))
      \<noteq> Some False"
  using loadPageData_all_or_nothing [of "Many [Fulfils 0, Fulfils 3, Fulfils 2 :: nat promise]"
      "\<lparr>pageLoadRetries = None, isLoading = Some True, isError = None, error = None\<rparr>"]
    loadPageData_all_or_nothing [of "Many [Fulfils 0, Rejects 3 (7::nat), Fulfils 2]"
      "\<lparr>pageLoadRetries = None, isLoading = Some True, isError = None, error = None\<rparr>"]
  by (simp add: operations_def)

subsection \<open>The retry count over the lifetime of a page\<close>

text \<open>
  C10. Over any sequence of load cycles and faults of rendering, and over any run of the
  loader, the retry count never decreases (a successful load cycle leaves it as it is),
  and a count that is at most 5 stays at most 5: on a page that starts with the count
  unset it never exceeds 5.
\<close>

theorem getRetries_monotone_bounded:
  "getRetries (fst c) \<le> getRetries (fst (lifetime evs c))
   \<and> (getRetries (fst c) \<le> MAX_RETRIES \<longrightarrow> getRetries (fst (lifetime evs c)) \<le> MAX_RETRIES)
   \<and> (pageLoadRetries initializePageState = None \<longrightarrow>
        getRetries (fst (lifetime evs (PageComponent initializePageState))) \<le> 5)
   \<and> (operations l \<noteq> [] \<and> Promise_all (operations l) = Fulfilled \<longrightarrow>
        getRetries (fst (loadPageData l s)) = getRetries s)
   \<and> getRetries s \<le> getRetries (final (runLoader createLoaders k s))
   \<and> (getRetries s \<le> MAX_RETRIES \<longrightarrow>
        getRetries (final (runLoader createLoaders k s)) \<le> MAX_RETRIES)"
proof -
  obtain n where run: "final (runLoader createLoaders k s) =
      fst (lifetime (map (\<lambda>i. Load (createLoaders i)) [k..<k + n]) (s, Scheduled 10))"
    using runLoader_final_Load [of createLoaders k s 10] by blast
  have run_mono: "getRetries s \<le> getRetries (final (runLoader createLoaders k s))"
    unfolding run
    using lifetime_getRetries_mono [of "(s, Scheduled 10)"] by simp
  have run_bound: "getRetries (final (runLoader createLoaders k s)) \<le> MAX_RETRIES"
    if "getRetries s \<le> MAX_RETRIES"
    unfolding run
    using that lifetime_getRetries_bound [of "(s, Scheduled 10)"] by simp
  have fresh: "getRetries (fst (lifetime evs (PageComponent initializePageState))) \<le> 5"
    if "pageLoadRetries initializePageState = None"
  proof -
    from that have "getRetries (fst (PageComponent initializePageState)) \<le> MAX_RETRIES"
      by (simp add: PageComponent_def initializeState_def getRetries_def)
    then show ?thesis
      using lifetime_getRetries_bound [of "PageComponent initializePageState" evs]
      by (simp add: MAX_RETRIES_def)
  qed
  show ?thesis
    using fresh run_mono run_bound
    by (simp add: lifetime_getRetries_mono lifetime_getRetries_bound loadPageData_settled)
qed

theorem getRetries_monotone_bounded_witness:
  "getRetries (fst (PageComponent \<lparr>pageLoadRetries = None, isLoading = None, isError = None,
        error = None :: nat PageError option\<rparr>)) \<le> MAX_RETRIES
   \<and> getRetries (fst (lifetime
        [Load (Single (Rejects 0 (3::nat))), Load (Many [Fulfils 0, Fulfils 2]), Fault 4 ''stack'']
        (PageComponent \<lparr>pageLoadRetries = None, isLoading = None, isError = None,
           error = None :: nat PageError option\<rparr>))) \<le> MAX_RETRIES
   \<and> operations (Many [Fulfils 0, Fulfils 2 :: nat promise]) \<noteq> []
   \<and> Promise_all (operations (Many [Fulfils 0, Fulfils 2 :: nat promise])) = Fulfilled
   \<and> getRetries (fst (loadPageData (Many [Fulfils 0, Fulfils 2 :: nat promise])
        \<lparr>pageLoadRetries = Some 3, isLoading = Some True, isError = None,
           error = None :: nat PageError option\<rparr>)) = 3"
  using getRetries_monotone_bounded
    [of "PageComponent \<lparr>pageLoadRetries = None, isLoading = None, isError = None, error = None\<rparr>"
      "[Load (Single (Rejects 0 (3::nat))), Load (Many [Fulfils 0, Fulfils 2]), Fault 4 ''stack'']"
      "\<lparr>pageLoadRetries = None, isLoading = None, isError = None, error = None\<rparr>"
      "Many [Fulfils 0, Fulfils 2 :: nat promise]"
      "\<lparr>pageLoadRetries = Some 3, isLoading = Some True, isError = None, error = None\<rparr>"]
  by (simp add: PageComponent_def initializeState_def getRetries_def MAX_RETRIES_def
      operations_def Promise_all_def)

subsection \<open>Runs of the loader\<close>

text \<open>
  C1. When the operations of the producer fail in each of the first six load cycles, a
  loader that starts with a retry count of 0 calls the producer 6 times, sets 5 timers
  (100, 200, 400, 800 and 1600 ms) and then stops in the error state: \<^verbatim>\<open>isError\<close> is
  set and the error record holds the reason of the sixth failure, the message
  "Error loading page data." and the category \<^verbatim>\<open>Server\<close>. No sixth timer is set.
\<close>

theorem runLoader_all_fail:
  assumes fail: "\<forall>k<6. operations (createLoaders k) \<noteq> []
      \<and> Promise_all (operations (createLoaders k)) = Rejected (err k)"
    and fresh: "getRetries s = 0"
  shows "runLoader createLoaders 0 s =
    \<lparr>final = s\<lparr>isLoading := Some True, pageLoadRetries := Some 5,
         error := Some \<lparr>error' = err 5, errorMessage = Text ''Error loading page data.'',
                        type = Server\<rparr>,
         isError := Some True\<rparr>,
     invocations = 6, timers = [100, 200, 400, 800, 1600]\<rparr>"
proof -
  let ?s = "\<lambda>n. s\<lparr>isLoading := Some True, pageLoadRetries := Some n\<rparr>"
  have ops: "operations (createLoaders k) \<noteq> []"
    and rej: "Promise_all (operations (createLoaders k)) = Rejected (err k)" if "k < 6" for k
    using fail that by simp_all
  have r0: "runLoader createLoaders 0 s =
      (runLoader createLoaders 1 (?s 1))\<lparr>timers := 100 # timers (runLoader createLoaders 1 (?s 1))\<rparr>"
    by (rule runLoader_retry [where e = "err 0"]) (simp_all add: ops rej fresh MAX_RETRIES_def)
  have r1: "runLoader createLoaders 1 (?s 1) =
      (runLoader createLoaders 2 (?s 2))\<lparr>timers := 200 # timers (runLoader createLoaders 2 (?s 2))\<rparr>"
    by (rule runLoader_retry [where e = "err 1"]) (simp_all add: ops rej MAX_RETRIES_def)
  have r2: "runLoader createLoaders 2 (?s 2) =
      (runLoader createLoaders 3 (?s 3))\<lparr>timers := 400 # timers (runLoader createLoaders 3 (?s 3))\<rparr>"
    by (rule runLoader_retry [where e = "err 2"]) (simp_all add: ops rej MAX_RETRIES_def)
  have r3: "runLoader createLoaders 3 (?s 3) =
      (runLoader createLoaders 4 (?s 4))\<lparr>timers := 800 # timers (runLoader createLoaders 4 (?s 4))\<rparr>"
    by (rule runLoader_retry [where e = "err 3"]) (simp_all add: ops rej MAX_RETRIES_def)
  have r4: "runLoader createLoaders 4 (?s 4) =
      (runLoader createLoaders 5 (?s 5))\<lparr>timers := 1600 # timers (runLoader createLoaders 5 (?s 5))\<rparr>"
    by (rule runLoader_retry [where e = "err 4"]) (simp_all add: ops rej MAX_RETRIES_def)
  have r5: "runLoader createLoaders 5 (?s 5) =
      \<lparr>final = (?s 5)\<lparr>error := Some \<lparr>error' = err 5,
            errorMessage = Text ''Error loading page data.'', type = Server\<rparr>, isError := Some True\<rparr>,
       invocations = 6, timers = []\<rparr>"
    using runLoader_exhausted [where createLoaders = createLoaders and k = 5 and s = "?s 5" and e = "err 5"]
    by (simp add: ops rej MAX_RETRIES_def)
  show ?thesis
    unfolding r0 r1 r2 r3 r4 r5 by simp
qed

theorem runLoader_all_fail_witness:
  "operations (Many [Fulfils 1, Rejects 2 (45::nat), Rejects 1 15]) \<noteq> []
   \<and> Promise_all (operations (Many [Fulfils 1, Rejects 2 (45::nat), Rejects 1 15])) = Rejected 15
   \<and> getRetries \<lparr>pageLoadRetries = None, isLoading = Some True, isError = None,
        error = None :: nat PageError option\<rparr> = 0
   \<and> runLoader (\<lambda>k. Many [Fulfils 1, Rejects 2 (k + 40), Rejects 1 (k + 10)]) 0
        \<lparr>pageLoadRetries = None, isLoading = Some True, isError = None, error = None\<rparr> =
      \<lparr>final = \<lparr>pageLoadRetries = Some 5, isLoading = Some True, isError = Some True,
          error = Some \<lparr>error' = 15, errorMessage = Text ''Error loading page data.'',
                         type = Server\<rparr>\<rparr>,
       invocations = 6, timers = [100, 200, 400, 800, 1600]\<rparr>"
  using runLoader_all_fail [of "\<lambda>k. Many [Fulfils 1, Rejects 2 (k + 40), Rejects 1 (k + 10)]"
      "\<lambda>k. k + 10"
      "\<lparr>pageLoadRetries = None, isLoading = Some True, isError = None, error = None\<rparr>"]
  by (simp add: operations_def Promise_all_def getRetries_def)

text \<open>
  C2. A load cycle that fails while the retry count \<open>r\<close> is below 5 raises the count to
  \<open>r + 1\<close> and sets a timer of \<open>100 * 2 ^ r\<close> ms for the next call of the producer, so
  the delays are 100, 200, 400, 800 and 1600 ms. When the producer fails in the first
  four cycles and succeeds in the fifth, a loader that starts with a retry count of 0
  ends in the success state with a retry count of 4, after timers of
  \<open>100 * (1 + 2 + 4 + 8)\<close> ms in all.
\<close>

theorem runLoader_backoff:
  "(operations l \<noteq> [] \<and> Promise_all (operations l) = Rejected e \<and> getRetries s < MAX_RETRIES \<longrightarrow>
      loadPageData l s =
        (s\<lparr>isLoading := Some True, pageLoadRetries := Some (getRetries s + 1)\<rparr>,
         Scheduled (100 * 2 ^ getRetries s)))
   \<and> map (\<lambda>r. 100 * 2 ^ r) [0..<MAX_RETRIES] = [100, 200, 400, 800, 1600 :: nat]
   \<and> ((\<forall>k<4. operations (createLoaders k) \<noteq> []
            \<and> (\<exists>e. Promise_all (operations (createLoaders k)) = Rejected e))
        \<and> operations (createLoaders 4) \<noteq> []
        \<and> Promise_all (operations (createLoaders 4)) = Fulfilled
        \<and> getRetries s0 = 0 \<longrightarrow>
        runLoader createLoaders 0 s0 =
          \<lparr>final = s0\<lparr>isLoading := Some False, pageLoadRetries := Some 4\<rparr>,
           invocations = 5, timers = [100, 200, 400, 800]\<rparr>
        \<and> \<not> isLoadingP (final (runLoader createLoaders 0 s0))
        \<and> getRetries (final (runLoader createLoaders 0 s0)) = 4
        \<and> sum_list (timers (runLoader createLoaders 0 s0)) = 100 * (1 + 2 + 4 + 8))"
proof -
  have cycle: "loadPageData l s =
        (s\<lparr>isLoading := Some True, pageLoadRetries := Some (getRetries s + 1)\<rparr>,
         Scheduled (100 * 2 ^ getRetries s))"
    if "operations l \<noteq> []" "Promise_all (operations l) = Rejected e" "getRetries s < MAX_RETRIES"
    using that by (simp add: loadPageData_settled)
  have delays: "map (\<lambda>r. 100 * 2 ^ r) [0..<MAX_RETRIES] = [100, 200, 400, 800, 1600 :: nat]"
    by (simp add: MAX_RETRIES_def upt_rec)
  have run: "runLoader createLoaders 0 s0 =
          \<lparr>final = s0\<lparr>isLoading := Some False, pageLoadRetries := Some 4\<rparr>,
           invocations = 5, timers = [100, 200, 400, 800]\<rparr>"
    if fail: "\<forall>k<4. operations (createLoaders k) \<noteq> []
            \<and> (\<exists>e. Promise_all (operations (createLoaders k)) = Rejected e)"
      and ops4: "operations (createLoaders 4) \<noteq> []"
      and ok4: "Promise_all (operations (createLoaders 4)) = Fulfilled"
      and fresh: "getRetries s0 = 0"
  proof -
    let ?s = "\<lambda>n. s0\<lparr>isLoading := Some True, pageLoadRetries := Some n\<rparr>"
    have ops: "operations (createLoaders k) \<noteq> []" if "k < 4" for k
      using fail that by simp
    have rej: "\<exists>e. Promise_all (operations (createLoaders k)) = Rejected e" if "k < 4" for k
      using fail that by simp
    have step: "runLoader createLoaders k s =
        (runLoader createLoaders k' s')\<lparr>timers := d # timers (runLoader createLoaders k' s')\<rparr>"
      if "k < 4" "getRetries s < MAX_RETRIES"
        "s' = s\<lparr>isLoading := Some True, pageLoadRetries := Some (getRetries s + 1)\<rparr>"
        "k' = Suc k" "d = 2 ^ getRetries s * 100" for k k' s s' d
    proof -
      from rej [OF that(1)] obtain e where "Promise_all (operations (createLoaders k)) = Rejected e" ..
      with ops [OF that(1)] that(2-5) show ?thesis
        by (intro runLoader_retry)
    qed
    have r0: "runLoader createLoaders 0 s0 =
        (runLoader createLoaders 1 (?s 1))\<lparr>timers := 100 # timers (runLoader createLoaders 1 (?s 1))\<rparr>"
      by (rule step) (simp_all add: fresh MAX_RETRIES_def)
    have r1: "runLoader createLoaders 1 (?s 1) =
        (runLoader createLoaders 2 (?s 2))\<lparr>timers := 200 # timers (runLoader createLoaders 2 (?s 2))\<rparr>"
      by (rule step) (simp_all add: MAX_RETRIES_def)
    have r2: "runLoader createLoaders 2 (?s 2) =
        (runLoader createLoaders 3 (?s 3))\<lparr>timers := 400 # timers (runLoader createLoaders 3 (?s 3))\<rparr>"
      by (rule step) (simp_all add: MAX_RETRIES_def)
    have r3: "runLoader createLoaders 3 (?s 3) =
        (runLoader createLoaders 4 (?s 4))\<lparr>timers := 800 # timers (runLoader createLoaders 4 (?s 4))\<rparr>"
      by (rule step) (simp_all add: MAX_RETRIES_def)
    have r4: "runLoader createLoaders 4 (?s 4) =
        \<lparr>final = (?s 4)\<lparr>isLoading := Some False\<rparr>, invocations = 5, timers = []\<rparr>"
      using runLoader_fulfilled [where createLoaders = createLoaders and k = 4 and s = "?s 4"] ops4 ok4
      by simp
    show ?thesis
      unfolding r0 r1 r2 r3 r4 by simp
  qed
  have total: "\<not> isLoadingP (final (runLoader createLoaders 0 s0))
        \<and> getRetries (final (runLoader createLoaders 0 s0)) = 4
        \<and> sum_list (timers (runLoader createLoaders 0 s0)) = 100 * (1 + 2 + 4 + 8)"
    if "runLoader createLoaders 0 s0 =
          \<lparr>final = s0\<lparr>isLoading := Some False, pageLoadRetries := Some 4\<rparr>,
           invocations = 5, timers = [100, 200, 400, 800]\<rparr>"
    unfolding that by (simp add: isLoadingP_def truthy_def)
  from cycle delays run total show ?thesis
    by blast
qed

theorem runLoader_backoff_witness:
  "operations (Single (Rejects 3 (7::nat))) \<noteq> []
   \<and> Promise_all (operations (Single (Rejects 3 (7::nat)))) = Rejected 7
   \<and> getRetries \<lparr>pageLoadRetries = Some 2, isLoading = Some True, isError = None,
        error = None :: nat PageError option\<rparr> < MAX_RETRIES
   \<and> loadPageData (Single (Rejects 3 (7::nat)))
        \<lparr>pageLoadRetries = Some 2, isLoading = Some True, isError = None, error = None\<rparr>
      = (\<lparr>pageLoadRetries = Some 3, isLoading = Some True, isError = None, error = None\<rparr>,
         Scheduled 400)
   \<and> Promise_all (operations
        ((\<lambda>k::nat. if k < 4 then Single (Rejects 3 k) else Many [Fulfils 2, Fulfils 0]) 3)) = Rejected 3
   \<and> Promise_all (operations
        ((\<lambda>k::nat. if k < 4 then Single (Rejects 3 k) else Many [Fulfils 2, Fulfils 0]) 4)) = Fulfilled
   \<and> runLoader (\<lambda>k::nat. if k < 4 then Single (Rejects 3 k) else Many [Fulfils 2, Fulfils 0]) 0
        \<lparr>pageLoadRetries = None, isLoading = Some True, isError = None, error = None\<rparr>
      = \<lparr>final = \<lparr>pageLoadRetries = Some 4, isLoading = Some False, isError = None, error = None\<rparr>,
         invocations = 5, timers = [100, 200, 400, 800]\<rparr>
   \<and> sum_list (timers (runLoader
        (\<lambda>k::nat. if k < 4 then Single (Rejects 3 k) else Many [Fulfils 2, Fulfils 0]) 0
        \<lparr>pageLoadRetries = None, isLoading = Some True, isError = None, error = None\<rparr>)) = 1500"
  using runLoader_backoff [of "Single (Rejects 3 (7::nat))" 7
      "\<lparr>pageLoadRetries = Some 2, isLoading = Some True, isError = None, error = None\<rparr>"
      "\<lambda>k::nat. if k < 4 then Single (Rejects 3 k) else Many [Fulfils 2, Fulfils 0]"
      "\<lparr>pageLoadRetries = None, isLoading = Some True, isError = None, error = None\<rparr>"]
  by (simp add: operations_def Promise_all_def getRetries_def MAX_RETRIES_def)

subsection \<open>The tenant-scoped configuration\<close>

text \<open>
  C7. \<^verbatim>\<open>federatedConfig\<close> puts the tenant id in the place of \<^verbatim>\<open>:tenantId\<close> in the
  URL of the API and stamps the navigation prefix: with the URL template
  \<^verbatim>\<open>.../t/:tenantId/registry\<close> (the part before \<^verbatim>\<open>/t/\<close> not containing the
  placeholder) and a tenant id without \<^verbatim>\<open>$\<close>, such as \<^verbatim>\<open>abc\<close>, the URL becomes
  \<^verbatim>\<open>.../t/abc/registry\<close> and \<^verbatim>\<open>navPrefixPath\<close> becomes \<^verbatim>\<open>/t/abc\<close>. A
  configuration that lacks \<^verbatim>\<open>artifacts\<close> or \<^verbatim>\<open>ui\<close> is returned with that field
  still unset; nothing else of the configuration changes.
\<close>

theorem federatedConfig_tenant:
  assumes "indexOf '':tenantId'' base = None" and "CHR ''$'' \<notin> set tenantId"
  shows "(\<forall>a. artifacts config = Some a \<longrightarrow>
            artifacts (federatedConfig config (base @ ''/t/:tenantId'') tenantId)
              = Some (a\<lparr>url := Some (base @ ''/t/'' @ tenantId @ ''/registry'')\<rparr>))
    \<and> (\<forall>u. ui config = Some u \<longrightarrow>
            ui (federatedConfig config (base @ ''/t/:tenantId'') tenantId)
              = Some (u\<lparr>navPrefixPath := Some (''/t/'' @ tenantId)\<rparr>))
    \<and> (artifacts config = None \<longrightarrow>
            artifacts (federatedConfig config registryApisUrl tenant) = None)
    \<and> (ui config = None \<longrightarrow> ui (federatedConfig config registryApisUrl tenant) = None)
    \<and> registryConfig.more (federatedConfig config registryApisUrl tenant)
         = registryConfig.more config"
proof -
  have api: "replace ((base @ ''/t/:tenantId'') @ ''/registry'') '':tenantId'' tenantId
      = base @ ''/t/'' @ tenantId @ ''/registry''"
    using assms by (rule replace_tenantId)
  show ?thesis
    by (cases "artifacts config"; cases "ui config")
      (simp_all add: federatedConfig_def Let_def navPath_def api del: append_assoc)
qed

theorem federatedConfig_tenant_witness:
  "indexOf '':tenantId'' ''https://registry.example.com:8080/apis'' = None
   \<and> CHR ''$'' \<notin> set ''abc''
   \<and> federatedConfig \<lparr>artifacts = Some \<lparr>url = None\<rparr>, ui = Some \<lparr>navPrefixPath = None\<rparr>\<rparr>
        (''https://registry.example.com:8080/apis'' @ ''/t/:tenantId'') ''abc''
      = \<lparr>artifacts = Some \<lparr>url = Some ''https://registry.example.com:8080/apis/t/abc/registry''\<rparr>,
         ui = Some \<lparr>navPrefixPath = Some ''/t/abc''\<rparr>\<rparr>
   \<and> federatedConfig \<lparr>artifacts = None :: artifactsConfig option, ui = None :: uiConfig option\<rparr>
        (''https://registry.example.com:8080/apis'' @ ''/t/:tenantId'') ''abc''
      = \<lparr>artifacts = None, ui = None\<rparr>"
proof -
  have h1: "indexOf '':tenantId'' ''https://registry.example.com:8080/apis'' = None"
    by simp
  have h2: "CHR ''$'' \<notin> set ''abc''"
    by simp
  note full = federatedConfig_tenant [OF h1 h2,
      of "\<lparr>artifacts = Some \<lparr>url = None\<rparr>, ui = Some \<lparr>navPrefixPath = None\<rparr>\<rparr>"
         "''https://registry.example.com:8080/apis'' @ ''/t/:tenantId''" "''abc''"]
  note lacking = federatedConfig_tenant [OF h1 h2,
      of "\<lparr>artifacts = None :: artifactsConfig option, ui = None :: uiConfig option\<rparr>"
         "''https://registry.example.com:8080/apis'' @ ''/t/:tenantId''" "''abc''"]
  have a: "federatedConfig \<lparr>artifacts = Some \<lparr>url = None\<rparr>, ui = Some \<lparr>navPrefixPath = None\<rparr>\<rparr>
        (''https://registry.example.com:8080/apis'' @ ''/t/:tenantId'') ''abc''
      = \<lparr>artifacts = Some \<lparr>url = Some ''https://registry.example.com:8080/apis/t/abc/registry''\<rparr>,
         ui = Some \<lparr>navPrefixPath = Some ''/t/abc''\<rparr>\<rparr>"
    using full by (intro registryConfig.equality) simp_all
  have b: "federatedConfig \<lparr>artifacts = None :: artifactsConfig option, ui = None :: uiConfig option\<rparr>
        (''https://registry.example.com:8080/apis'' @ ''/t/:tenantId'') ''abc''
      = \<lparr>artifacts = None, ui = None\<rparr>"
    using lacking by (intro registryConfig.equality) simp_all
  from h1 h2 a b show ?thesis
    by blast
qed

subsection \<open>Which errors reach the error page\<close>

text \<open>
  Not every error is recorded and shown as a record with a text for a message (C6 as
  worded). A fault of loading that occurs while the retry count is below the maximum only
  starts a retry: on a fresh page whose one operation rejects with 7, the state after the
  cycle holds no error and the spinner is rendered; when the next cycle succeeds, the page
  is rendered and the error 7 has never been shown. And the record of a fault of rendering
  holds React's error info, here the component stack, where a fault of loading has its
  text.
\<close>

theorem load_fault_below_maximum_not_surfaced:
  "loadPageData (Single (Rejects 0 (7::nat)))
       \<lparr>pageLoadRetries = None, isLoading = Some True, isError = None, error = None\<rparr>
     = (\<lparr>pageLoadRetries = Some 1, isLoading = Some True, isError = None, error = None\<rparr>,
        Scheduled 100)
   \<and> render pageLoadRetries
        (fst (loadPageData (Single (Rejects 0 (7::nat)))
           \<lparr>pageLoadRetries = None, isLoading = Some True, isError = None, error = None\<rparr>))
     = Spinner
   \<and> lifetime [Load (Single (Rejects 0 (7::nat))), Load (Single (Fulfils 0))]
        (PageComponent \<lparr>pageLoadRetries = None, isLoading = None, isError = None, error = None\<rparr>)
     = (\<lparr>pageLoadRetries = Some 1, isLoading = Some False, isError = None, error = None\<rparr>,
        Finished)
   \<and> render pageLoadRetries
        (fst (lifetime [Load (Single (Rejects 0 (7::nat))), Load (Single (Fulfils 0))]
           (PageComponent \<lparr>pageLoadRetries = None, isLoading = None, isError = None, error = None\<rparr>)))
     = Page (Some 1)
   \<and> componentDidCatch (7::nat) ''stack''
        \<lparr>pageLoadRetries = None, isLoading = Some True, isError = None, error = None\<rparr>
     = \<lparr>pageLoadRetries = None, isLoading = Some True, isError = Some True,
         error = Some \<lparr>error' = 7, errorMessage = ErrorInfo ''stack'', type = React\<rparr>\<rparr>"
  by (simp add: lifetime_def PageComponent_def initializeState_def loadPageData_settled
      operations_def Promise_all_def getRetries_def MAX_RETRIES_def render_def isErrorP_def
      truthy_def componentDidCatch_update)

text \<open>
  C6, as the code has it. A fault of rendering that React reports to
  \<^verbatim>\<open>componentDidCatch\<close>, and a fault of loading that occurs once the retry count has
  reached the maximum, are recorded as \<^verbatim>\<open>{ error, errorMessage, type }\<close> (the cause;
  React's error info for the one, the text "Error loading page data." for the other; the
  category) and the error page is rendered with that record. A fault of loading that
  occurs while the retry count is below the maximum is caught and turned into a retry: the
  count goes up, a timer is set, and the error fields stay as they were. In each of these
  cases nothing leaves the loader uncaught, whatever \<^verbatim>\<open>renderPage()\<close> does.
\<close>

theorem errors_recorded_or_retried:
  "componentDidCatch err errorInfo s =
      s\<lparr>error := Some \<lparr>error' = err, errorMessage = ErrorInfo errorInfo, type = React\<rparr>,
        isError := Some True\<rparr>
   \<and> render_throwing renderPage (componentDidCatch err errorInfo s) =
       Inr (ErrorPage (Some \<lparr>error' = err, errorMessage = ErrorInfo errorInfo, type = React\<rparr>))
   \<and> (operations l \<noteq> [] \<and> Promise_all (operations l) = Rejected err
        \<and> \<not> getRetries s < MAX_RETRIES \<longrightarrow>
        loadPageData_rendering renderPage l s =
          (s\<lparr>isLoading := Some True,
             error := Some \<lparr>error' = err, errorMessage = Text ''Error loading page data.'',
                            type = Server\<rparr>,
             isError := Some True\<rparr>, Finished, None)
        \<and> render_throwing renderPage (fst (loadPageData_rendering renderPage l s)) =
            Inr (ErrorPage (Some \<lparr>error' = err, errorMessage = Text ''Error loading page data.'',
                                   type = Server\<rparr>)))
   \<and> (operations l \<noteq> [] \<and> Promise_all (operations l) = Rejected err
        \<and> getRetries s < MAX_RETRIES \<longrightarrow>
        loadPageData_rendering renderPage l s =
          (s\<lparr>isLoading := Some True, pageLoadRetries := Some (getRetries s + 1)\<rparr>,
           Scheduled (2 ^ getRetries s * 100), None)
        \<and> error (fst (loadPageData_rendering renderPage l s)) = error s
        \<and> isError (fst (loadPageData_rendering renderPage l s)) = isError s)"
  by (simp add: componentDidCatch_update loadPageData_rendering_rejected render_throwing_def
      isErrorP_def truthy_def)

theorem errors_recorded_or_retried_witness:
  "operations (Many [Fulfils 0, Rejects 4 (7::nat)]) \<noteq> []
   \<and> Promise_all (operations (Many [Fulfils 0, Rejects 4 (7::nat)])) = Rejected 7
   \<and> \<not> getRetries \<lparr>pageLoadRetries = Some 5, isLoading = Some True, isError = None,
        error = None :: nat PageError option\<rparr> < MAX_RETRIES
   \<and> loadPageData_rendering (\<lambda>s. Inl 9 :: nat + unit) (Many [Fulfils 0, Rejects 4 (7::nat)])
        \<lparr>pageLoadRetries = Some 5, isLoading = Some True, isError = None, error = None\<rparr>
      = (\<lparr>pageLoadRetries = Some 5, isLoading = Some True, isError = Some True,
          error = Some \<lparr>error' = 7, errorMessage = Text ''Error loading page data.'',
                         type = Server\<rparr>\<rparr>,
         Finished, None)
   \<and> getRetries \<lparr>pageLoadRetries = Some 4, isLoading = Some True, isError = None,
        error = None :: nat PageError option\<rparr> < MAX_RETRIES
   \<and> loadPageData_rendering (\<lambda>s. Inl 9 :: nat + unit) (Many [Fulfils 0, Rejects 4 (7::nat)])
        \<lparr>pageLoadRetries = Some 4, isLoading = Some True, isError = None, error = None\<rparr>
      = (\<lparr>pageLoadRetries = Some 5, isLoading = Some True, isError = None, error = None\<rparr>,
         Scheduled 1600, None)"
  using errors_recorded_or_retried [of 7 "''stack''"
      "\<lparr>pageLoadRetries = Some 5, isLoading = Some True, isError = None, error = None\<rparr>"
      "\<lambda>s. Inl 9 :: nat + unit" "Many [Fulfils 0, Rejects 4 (7::nat)]"]
    errors_recorded_or_retried [of 7 "''stack''"
      "\<lparr>pageLoadRetries = Some 4, isLoading = Some True, isError = None, error = None\<rparr>"
      "\<lambda>s. Inl 9 :: nat + unit" "Many [Fulfils 0, Rejects 4 (7::nat)]"]
  by (simp add: operations_def Promise_all_def getRetries_def MAX_RETRIES_def)

end
